theory Spec2Isabelle
  imports Complex_Main
begin

section \<open>Data model\<close>

text \<open>
  The client passes numeric buffers through without ever reading their contents; only
  their two-dimensional shape matters (N-by-1, N-by-K, 1-by-K, Q-by-K in the docstrings).
\<close>

datatype ndarray = NDArray (nrows: nat) (ncols: nat) (elems: "real list")

text \<open>
  Python values that travel through the client untouched: option values, the server's
  response, the entries of the result dictionary. A dictionary is an association list
  whose keys are distinct.
\<close>

datatype pyval =
    PyNone
  | PyBool bool
  | PyInt int
  | PyFloat real
  | PyStr string
  | PyArr ndarray
  | PyTuple "pyval list"
  | PyList "pyval list"
  | PyDict "(string \<times> pyval) list"

type_synonym pydict = "(string \<times> pyval) list"

text \<open>
  Modelled from the spec: the enumeration \<open>PSRFunction\<close> is imported from
  \<open>csa_common_lib.enum_types.functions\<close>, which is not among the sources. Its members
  are the function family tags the sources name: the four base families, their binary
  variants, and \<open>PREDICT\<close> (used by \<open>multi_tasks.predict\<close>).
\<close>

datatype PSRFunction =
    PSR | MAXFIT | GRID | GRID_SINGULARITY
  | PSR_BINARY | MAXFIT_BINARY | GRID_BINARY | GRID_SINGULARITY_BINARY
  | PREDICT

text \<open>
  Modelled from the spec: the enumeration \<open>JobType\<close> is imported from
  \<open>csa_common_lib.enum_types.job_types\<close>, which is not among the sources. The task
  kinds are Single, MultiY and MultiTheta.
\<close>

datatype JobType = SINGLE | MULTI_THETA | MULTI_Y

text \<open>
  What the router hands to the task table: one of the three task kinds, or Python's
  \<open>None\<close> (what a function returns when it falls through without a \<open>return\<close>),
  the one value outside the enumeration that is certain to exist.
\<close>

datatype task_key = Kind JobType | NoKind

text \<open>
  Exceptions as values. \<open>AttributeError\<close>, \<open>TypeError\<close> and \<open>ValueError\<close> are the
  Python built-ins (the message of a \<open>ValueError\<close> is not among the sources and is
  left out); \<open>ExternalError\<close> is whatever an external collaborator raises. The
  remaining constructors are the error names of the specification's taxonomy, none of
  which the sources define.
\<close>

datatype error =
    AttributeError string
  | TypeError string
  | ValueError
  | ExternalError string
  | InvalidShapeError
  | InvalidHandleError
  | JobFailedError string
  | JobTimeoutError
  | UnroutableTaskError

text \<open>
  The option classes (\<open>PredictionOptions\<close>, \<open>MaxFitOptions\<close>, \<open>GridOptions\<close>) are read
  through their attribute \<open>options\<close> only, a dictionary of keyword parameters.
\<close>

record PredictionOptions =
  options :: pydict

text \<open>
  Modelled from the spec: the class \<open>PredictionReceipt\<close> is imported from
  \<open>csa_common_lib.classes.prediction_receipt\<close>, which is not among the sources. A
  receipt is an immutable record of the function family, the request tensors, the
  options, the produced \<open>yhat\<close> and the elapsed duration; building one is pure and never
  fails.
\<close>

record PredictionReceipt =
  model_type :: PSRFunction
  receipt_y :: ndarray
  receipt_X :: ndarray
  receipt_theta :: ndarray
  receipt_options :: PredictionOptions
  receipt_yhat :: pyval
  prediction_duration :: real

section \<open>Effects\<close>

text \<open>
  The observable effects of a call, as logs that grow: the submissions sent to the
  remote service (\<open>post_job\<close>), the polls sent to it (\<open>poll_for_results\<close>), the lines
  printed, the number of clock readings taken, and the receipts constructed.
\<close>

record world =
  posted :: "(PSRFunction \<times> ndarray \<times> ndarray \<times> ndarray \<times> pydict) list"
  polled :: "(int \<times> string) list"
  printed :: "string list"
  clock_reads :: nat
  receipts :: "PredictionReceipt list"

text \<open>
  The executors a task kind is routed to. None of the three is among the sources
  (\<open>single_tasks.predict\<close>, \<open>run_multi_theta\<close>, \<open>run_multi_y\<close>), so the table holds
  their names and the environment below gives their behaviour.
\<close>

datatype executor = Single_tasks_predict | Run_multi_theta | Run_multi_y

text \<open>
  The collaborators that are not among the sources, as parameters. Each may raise.
  \<^item> \<open>convert_ndarray_to_list\<close> (csa_common_lib): the serialisation helper;
  \<^item> \<open>post_job\<close>, \<open>poll_for_results\<close> (\<open>helpers._payload_handler\<close>): the two network
    calls, whose answers may depend on everything that happened before;
  \<open>post_job\<close> answers with the triple (response, job_id, job_code);
  \<^item> \<open>py_str\<close>: Python's \<open>str()\<close>, as the f-string of the diagnostic applies it;
  \<^item> \<open>time_time\<close>: the reading \<open>time.time()\<close> returns, by the number of earlier
    readings;
  \<^item> \<open>determine_task_type\<close> (\<open>helpers._router\<close>): the shape classifier;
  \<^item> \<open>run_executor\<close>: the three executors of the task table.
\<close>

record env =
  convert_ndarray_to_list :: "pydict \<Rightarrow> error + pydict"
  post_job :: "world \<Rightarrow> PSRFunction \<Rightarrow> ndarray \<Rightarrow> ndarray \<Rightarrow> ndarray \<Rightarrow> pydict
                 \<Rightarrow> error + (pyval \<times> int option \<times> string option)"
  poll_for_results :: "world \<Rightarrow> int \<Rightarrow> string \<Rightarrow> error + pydict"
  py_str :: "pyval \<Rightarrow> string"
  time_time :: "nat \<Rightarrow> real"
  determine_task_type :: "ndarray \<Rightarrow> ndarray \<Rightarrow> ndarray \<Rightarrow> error + task_key"
  run_executor :: "executor \<Rightarrow> PSRFunction \<Rightarrow> ndarray \<Rightarrow> ndarray \<Rightarrow> ndarray
                     \<Rightarrow> PredictionOptions \<Rightarrow> world \<Rightarrow> (error + pyval \<times> pyval) \<times> world"

text \<open>Python's \<open>d.get(key, default)\<close>.\<close>

definition dict_get :: "('k \<times> 'v) list \<Rightarrow> 'k \<Rightarrow> 'v \<Rightarrow> 'v" where
  "dict_get d key dflt = (case map_of d key of Some v \<Rightarrow> v | None \<Rightarrow> dflt)"

text \<open>
  The network poll: the call is logged, then the service answers.
\<close>

definition call_poll_for_results ::
  "env \<Rightarrow> int \<Rightarrow> string \<Rightarrow> world \<Rightarrow> (error + pydict) \<times> world" where
  "call_poll_for_results e job_id job_code w =
     (poll_for_results e w job_id job_code, w\<lparr>polled := polled w @ [(job_id, job_code)]\<rparr>)"

section \<open>helpers/_postmaster.py: retrieving results\<close>

text \<open>
  \<^verbatim>\<open>
  def _get_results(job_id, job_code):
      yhat = None
      output_details = None
      if job_id is not None and job_code is not None:
          output_details = poll_for_results(job_id, job_code)
          yhat = output_details.get('yhat', None)
      return yhat, output_details
  \<close>
  (Isabelle names cannot start with an underscore, so the leading underscore of the
  source's private names is dropped.)
\<close>

definition get_results ::
  "env \<Rightarrow> int option \<Rightarrow> string option \<Rightarrow> world
     \<Rightarrow> (error + pyval \<times> pydict option) \<times> world" where
  "get_results e job_id job_code w =
     (case (job_id, job_code) of
        (Some jid, Some jc) \<Rightarrow>
          (case call_poll_for_results e jid jc w of
             (Inl err, w1) \<Rightarrow> (Inl err, w1)
           | (Inr output_details, w1) \<Rightarrow>
               (Inr (dict_get output_details ''yhat'' PyNone, Some output_details), w1))
      | _ \<Rightarrow> (Inr (PyNone, None), w))"

definition get_results_worker ::
  "env \<Rightarrow> int option \<Rightarrow> string option \<Rightarrow> world
     \<Rightarrow> (error + pyval \<times> pydict option) \<times> world" where
  "get_results_worker e job_id job_code w = get_results e job_id job_code w"

section \<open>helpers/_postmaster.py: submitting a job\<close>

text \<open>
  \<^verbatim>\<open>
  _BINARY_FUNCTION_MAP = {
      PSRFunction.PSR: PSRFunction.PSR_BINARY,
      PSRFunction.MAXFIT: PSRFunction.MAXFIT_BINARY,
      PSRFunction.GRID: PSRFunction.GRID_BINARY,
      PSRFunction.GRID_SINGULARITY: PSRFunction.GRID_SINGULARITY_BINARY
  }
  \<close>
\<close>

definition BINARY_FUNCTION_MAP :: "(PSRFunction \<times> PSRFunction) list" where
  "BINARY_FUNCTION_MAP =
     [(PSR, PSR_BINARY),
      (MAXFIT, MAXFIT_BINARY),
      (GRID, GRID_BINARY),
      (GRID_SINGULARITY, GRID_SINGULARITY_BINARY)]"

text \<open>
  The network submission \<open>post_job(function_type, y=y, X=X, theta=theta, **options_dict)\<close>.
  Python refuses the call, before \<open>post_job\<close> runs, when the unpacked dictionary
  repeats one of the keywords written out; otherwise the call is logged and the service
  answers.
\<close>

definition call_post_job ::
  "env \<Rightarrow> PSRFunction \<Rightarrow> ndarray \<Rightarrow> ndarray \<Rightarrow> ndarray \<Rightarrow> pydict \<Rightarrow> world
     \<Rightarrow> (error + (pyval \<times> int option \<times> string option)) \<times> world" where
  "call_post_job e function_type y X theta options_dict w =
     (if filter (\<lambda>k. k \<in> set [''y'', ''X'', ''theta'']) (map fst options_dict) \<noteq> []
      then (Inl (TypeError ''post_job() got multiple values for keyword argument''), w)
      else (post_job e w function_type y X theta options_dict,
            w\<lparr>posted := posted w @ [(function_type, y, X, theta, options_dict)]\<rparr>))"

definition print_line :: "string \<Rightarrow> world \<Rightarrow> world" where
  "print_line s w = w\<lparr>printed := printed w @ [s]\<rparr>"

text \<open>
  \<^verbatim>\<open>
  def _create_post_job_decorator(base_function_type, function_name):
      def decorator(func):
          def wrapper(y, X, theta, Options, is_binary=False):
              options_dict = convert_ndarray_to_list(Options.options)
              function_type = _BINARY_FUNCTION_MAP.get(base_function_type, base_function_type) \
                  if is_binary else base_function_type
              response, job_id, job_code = post_job(
                  function_type, y=y, X=X, theta=theta, **options_dict)
              if response is not None and job_id is None and job_code is None:
                  print(f"csanalytics:postmaster:_jobs:{function_name}:{response}")
              return job_id, job_code
          return wrapper
      return decorator
  \<close>
  The decorated function's own body is \<open>pass\<close>: the wrapper is all there is.
\<close>

definition create_post_job_decorator ::
  "PSRFunction \<Rightarrow> string \<Rightarrow> env \<Rightarrow> ndarray \<Rightarrow> ndarray \<Rightarrow> ndarray \<Rightarrow> PredictionOptions
     \<Rightarrow> bool \<Rightarrow> world \<Rightarrow> (error + int option \<times> string option) \<times> world" where
  "create_post_job_decorator base_function_type function_name e y X theta Options is_binary w =
     (case convert_ndarray_to_list e (options Options) of
        Inl err \<Rightarrow> (Inl err, w)
      | Inr options_dict \<Rightarrow>
          (let function_type =
                 (if is_binary
                  then dict_get BINARY_FUNCTION_MAP base_function_type base_function_type
                  else base_function_type)
           in case call_post_job e function_type y X theta options_dict w of
                (Inl err, w1) \<Rightarrow> (Inl err, w1)
              | (Inr (response, job_id, job_code), w1) \<Rightarrow>
                  (Inr (job_id, job_code),
                   if response \<noteq> PyNone \<and> job_id = None \<and> job_code = None
                   then print_line (''csanalytics:postmaster:_jobs:'' @ function_name @ '':''
                                      @ py_str e response) w1
                   else w1)))"

definition post_predict_inputs ::
  "env \<Rightarrow> ndarray \<Rightarrow> ndarray \<Rightarrow> ndarray \<Rightarrow> PredictionOptions \<Rightarrow> bool \<Rightarrow> world
     \<Rightarrow> (error + int option \<times> string option) \<times> world" where
  "post_predict_inputs = create_post_job_decorator PSR ''_post_predict_inputs''"

definition post_maxfit_inputs ::
  "env \<Rightarrow> ndarray \<Rightarrow> ndarray \<Rightarrow> ndarray \<Rightarrow> PredictionOptions \<Rightarrow> bool \<Rightarrow> world
     \<Rightarrow> (error + int option \<times> string option) \<times> world" where
  "post_maxfit_inputs = create_post_job_decorator MAXFIT ''_post_maxfit_inputs''"

definition post_grid_inputs ::
  "env \<Rightarrow> ndarray \<Rightarrow> ndarray \<Rightarrow> ndarray \<Rightarrow> PredictionOptions \<Rightarrow> bool \<Rightarrow> world
     \<Rightarrow> (error + int option \<times> string option) \<times> world" where
  "post_grid_inputs = create_post_job_decorator GRID ''_post_grid_inputs''"

definition post_grid_singularity_inputs ::
  "env \<Rightarrow> ndarray \<Rightarrow> ndarray \<Rightarrow> ndarray \<Rightarrow> PredictionOptions \<Rightarrow> bool \<Rightarrow> world
     \<Rightarrow> (error + int option \<times> string option) \<times> world" where
  "post_grid_singularity_inputs =
     create_post_job_decorator GRID_SINGULARITY ''_post_grid_singularity_inputs''"

section \<open>bin/_workers.py: the single-task executor\<close>

text \<open>
  A call returns either the job handle \<open>(job_id, job_code)\<close> or the outcome
  \<open>(yhat, yhat_details)\<close>.
\<close>

datatype exec_return =
    JobHandle "int option" "string option"
  | JobOutcome pyval "pydict option"

text \<open>
  \<^verbatim>\<open>
  def _execute_prediction(y, X, theta, Options, post_function,
                          poll_results=False, is_binary=False):
      job_id, job_code = post_function(y=y, X=X, theta=theta, Options=Options,
                                       is_binary=is_binary)
      if poll_results:
          yhat, yhat_details = _postmaster._get_results_worker(job_id, job_code)
          return yhat, yhat_details
      else:
          return job_id, job_code
  \<close>
\<close>

definition execute_prediction ::
  "env \<Rightarrow> ndarray \<Rightarrow> ndarray \<Rightarrow> ndarray \<Rightarrow> PredictionOptions
     \<Rightarrow> (ndarray \<Rightarrow> ndarray \<Rightarrow> ndarray \<Rightarrow> PredictionOptions \<Rightarrow> bool \<Rightarrow> world
           \<Rightarrow> (error + int option \<times> string option) \<times> world)
     \<Rightarrow> bool \<Rightarrow> bool \<Rightarrow> world \<Rightarrow> (error + exec_return) \<times> world" where
  "execute_prediction e y X theta Options post_function poll_results is_binary w =
     (case post_function y X theta Options is_binary w of
        (Inl err, w1) \<Rightarrow> (Inl err, w1)
      | (Inr (job_id, job_code), w1) \<Rightarrow>
          if poll_results
          then (case get_results_worker e job_id job_code w1 of
                  (Inl err, w2) \<Rightarrow> (Inl err, w2)
                | (Inr (yhat, yhat_details), w2) \<Rightarrow> (Inr (JobOutcome yhat yhat_details), w2))
          else (Inr (JobHandle job_id job_code), w1))"

text \<open>The four entry points of \<open>_workers.py\<close> fix the submission function.\<close>

definition workers_predict_psr ::
  "env \<Rightarrow> ndarray \<Rightarrow> ndarray \<Rightarrow> ndarray \<Rightarrow> PredictionOptions \<Rightarrow> bool \<Rightarrow> bool \<Rightarrow> world
     \<Rightarrow> (error + exec_return) \<times> world" where
  "workers_predict_psr e y X theta Options poll_results is_binary w =
     execute_prediction e y X theta Options (post_predict_inputs e) poll_results is_binary w"

definition workers_predict_maxfit ::
  "env \<Rightarrow> ndarray \<Rightarrow> ndarray \<Rightarrow> ndarray \<Rightarrow> PredictionOptions \<Rightarrow> bool \<Rightarrow> bool \<Rightarrow> world
     \<Rightarrow> (error + exec_return) \<times> world" where
  "workers_predict_maxfit e y X theta Options poll_results is_binary w =
     execute_prediction e y X theta Options (post_maxfit_inputs e) poll_results is_binary w"

definition workers_predict_grid ::
  "env \<Rightarrow> ndarray \<Rightarrow> ndarray \<Rightarrow> ndarray \<Rightarrow> PredictionOptions \<Rightarrow> bool \<Rightarrow> bool \<Rightarrow> world
     \<Rightarrow> (error + exec_return) \<times> world" where
  "workers_predict_grid e y X theta Options poll_results is_binary w =
     execute_prediction e y X theta Options (post_grid_inputs e) poll_results is_binary w"

definition workers_predict_grid_singularity ::
  "env \<Rightarrow> ndarray \<Rightarrow> ndarray \<Rightarrow> ndarray \<Rightarrow> PredictionOptions \<Rightarrow> bool \<Rightarrow> bool \<Rightarrow> world
     \<Rightarrow> (error + exec_return) \<times> world" where
  "workers_predict_grid_singularity e y X theta Options poll_results is_binary w =
     execute_prediction e y X theta Options (post_grid_singularity_inputs e)
       poll_results is_binary w"

section \<open>bin/multi_tasks.py: grid and grid singularity\<close>

text \<open>
  \<^verbatim>\<open>
  def predict_grid(y, X, theta, Options, poll_results=True):
      job_id, job_code = _postmaster._post_grid_inputs(y, X, theta, Options=Options)
      if poll_results:
          yhat, yhat_details = _postmaster._get_results(job_id, job_code)
          return yhat, yhat_details
      else:
          return job_id, job_code
  \<close>
  \<open>is_binary\<close> is not passed, so the wrapper's default \<open>False\<close> applies.
\<close>

definition multi_tasks_predict_grid ::
  "env \<Rightarrow> ndarray \<Rightarrow> ndarray \<Rightarrow> ndarray \<Rightarrow> PredictionOptions \<Rightarrow> bool \<Rightarrow> world
     \<Rightarrow> (error + exec_return) \<times> world" where
  "multi_tasks_predict_grid e y X theta Options poll_results w =
     (case post_grid_inputs e y X theta Options False w of
        (Inl err, w1) \<Rightarrow> (Inl err, w1)
      | (Inr (job_id, job_code), w1) \<Rightarrow>
          if poll_results
          then (case get_results e job_id job_code w1 of
                  (Inl err, w2) \<Rightarrow> (Inl err, w2)
                | (Inr (yhat, yhat_details), w2) \<Rightarrow> (Inr (JobOutcome yhat yhat_details), w2))
          else (Inr (JobHandle job_id job_code), w1))"

text \<open>
  \<^verbatim>\<open>
  def predict_grid_singularity(y, X, theta, Options, poll_results=True):
      job_id, job_code = _postmaster._post_grid_inputs(y, X, theta, Options=Options)
      if poll_results:
          yhat, yhat_details = _postmaster._get_results(job_id, job_code)
          return yhat, yhat_details
      else:
          return job_id, job_code
  \<close>
  The source submits through \<open>_post_grid_inputs\<close> here too, not through
  \<open>_post_grid_singularity_inputs\<close>.
\<close>

definition multi_tasks_predict_grid_singularity ::
  "env \<Rightarrow> ndarray \<Rightarrow> ndarray \<Rightarrow> ndarray \<Rightarrow> PredictionOptions \<Rightarrow> bool \<Rightarrow> world
     \<Rightarrow> (error + exec_return) \<times> world" where
  "multi_tasks_predict_grid_singularity e y X theta Options poll_results w =
     (case post_grid_inputs e y X theta Options False w of
        (Inl err, w1) \<Rightarrow> (Inl err, w1)
      | (Inr (job_id, job_code), w1) \<Rightarrow>
          if poll_results
          then (case get_results e job_id job_code w1 of
                  (Inl err, w2) \<Rightarrow> (Inl err, w2)
                | (Inr (yhat, yhat_details), w2) \<Rightarrow> (Inr (JobOutcome yhat yhat_details), w2))
          else (Inr (JobHandle job_id job_code), w1))"

section \<open>api_client.py: the dispatcher\<close>

text \<open>
  \<^verbatim>\<open>
  _TASK_MAP = {
      JobType.SINGLE: single_tasks.predict,
      JobType.MULTI_THETA: run_multi_theta,
      JobType.MULTI_Y: run_multi_y
  }
  \<close>
\<close>

definition TASK_MAP :: "(task_key \<times> executor) list" where
  "TASK_MAP =
     [(Kind SINGLE, Single_tasks_predict),
      (Kind MULTI_THETA, Run_multi_theta),
      (Kind MULTI_Y, Run_multi_y)]"

text \<open>A reading of the clock: \<open>time.time()\<close>.\<close>

definition call_time_time :: "env \<Rightarrow> world \<Rightarrow> real \<times> world" where
  "call_time_time e w = (time_time e (clock_reads w), w\<lparr>clock_reads := Suc (clock_reads w)\<rparr>)"

text \<open>
  The constructor call \<open>PredictionReceipt(model_type=..., y=..., X=..., theta=...,
  options=..., yhat=..., prediction_duration=...)\<close>; the construction is logged.
\<close>

definition new_PredictionReceipt ::
  "PSRFunction \<Rightarrow> ndarray \<Rightarrow> ndarray \<Rightarrow> ndarray \<Rightarrow> PredictionOptions \<Rightarrow> pyval \<Rightarrow> real
     \<Rightarrow> world \<Rightarrow> PredictionReceipt \<times> world" where
  "new_PredictionReceipt f y X theta opts yhat duration w =
     (let r = \<lparr>model_type = f, receipt_y = y, receipt_X = X, receipt_theta = theta,
                receipt_options = opts, receipt_yhat = yhat, prediction_duration = duration\<rparr>
      in (r, w\<lparr>receipts := receipts w @ [r]\<rparr>))"

text \<open>
  A prediction call returns the pair \<open>(yhat, yhat_details)\<close> or the triple
  \<open>(yhat, yhat_details, receipt)\<close>.
\<close>

datatype predict_return =
    Plain pyval pyval
  | WithReceipt pyval pyval PredictionReceipt

text \<open>
  \<^verbatim>\<open>
  def predict_psr(y, X, theta, Options, is_return_receipt=False):
      start_time = time.time()
      prediction_function = _TASK_MAP.get(_router.determine_task_type(y, X, theta))
      yhat, yhat_details = prediction_function(PSRFunction.PSR, y, X, theta, Options)
      end_time = time.time()
      prediction_duration = end_time - start_time
      if is_return_receipt:
          receipt = PredictionReceipt(model_type=PSRFunction.PSR, y=y, X=X, theta=theta,
                                      options=Options, yhat=yhat,
                                      prediction_duration=prediction_duration)
          return yhat, yhat_details, receipt
      else:
           return yhat, yhat_details
  \<close>
  \<open>_TASK_MAP.get\<close> answers \<open>None\<close> on a miss, and calling \<open>None\<close> raises Python's
  \<open>TypeError\<close>. The difference of the two clock readings is taken over the reals: the
  rounding of the binary64 subtraction is left out, and nothing below depends on the
  value of the duration.
\<close>

definition predict_psr ::
  "env \<Rightarrow> ndarray \<Rightarrow> ndarray \<Rightarrow> ndarray \<Rightarrow> PredictionOptions \<Rightarrow> bool \<Rightarrow> world
     \<Rightarrow> (error + predict_return) \<times> world" where
  "predict_psr e y X theta Options is_return_receipt w =
     (case call_time_time e w of
        (start_time, w1) \<Rightarrow>
          (case determine_task_type e y X theta of
             Inl err \<Rightarrow> (Inl err, w1)
           | Inr task_type \<Rightarrow>
               (case map_of TASK_MAP task_type of
                  None \<Rightarrow> (Inl (TypeError ''NoneType object is not callable''), w1)
                | Some prediction_function \<Rightarrow>
                    (case run_executor e prediction_function PSR y X theta Options w1 of
                       (Inl err, w2) \<Rightarrow> (Inl err, w2)
                     | (Inr (yhat, yhat_details), w2) \<Rightarrow>
                         (case call_time_time e w2 of
                            (end_time, w3) \<Rightarrow>
                              (let prediction_duration = end_time - start_time in
                               if is_return_receipt
                               then (case new_PredictionReceipt PSR y X theta Options yhat
                                            prediction_duration w3 of
                                       (receipt, w4) \<Rightarrow>
                                         (Inr (WithReceipt yhat yhat_details receipt), w4))
                               else (Inr (Plain yhat yhat_details), w3)))))))"


section \<open>The shape classifier\<close>



section \<open>psrlib.py\<close>

text \<open>
  \<open>psrlib.py\<close> binds \<open>csa_postmaster\<close> by \<open>from . import _postmaster\<close>: the module
  \<open>_postmaster\<close> of the package root, which is not among the sources (and is not
  \<open>helpers/_postmaster.py\<close>, whose functions take other arguments). It is a parameter.
  Every function is looked up on the module by name at the moment of the call. A module
  is the list of names it binds and the behaviour of its functions, each returning a
  pair. Looking up a name the module does not bind raises \<open>AttributeError\<close>, before
  any argument is passed.
\<close>

record pymodule =
  attrs :: "string list"
  invoke :: "string \<Rightarrow> pyval list \<Rightarrow> pydict \<Rightarrow> world \<Rightarrow> (error + pyval \<times> pyval) \<times> world"

definition call_attr ::
  "pymodule \<Rightarrow> string \<Rightarrow> pyval list \<Rightarrow> pydict \<Rightarrow> world \<Rightarrow> (error + pyval \<times> pyval) \<times> world" where
  "call_attr m name args kwargs w =
     (if name \<in> set (attrs m) then invoke m name args kwargs w
      else (Inl (AttributeError name), w))"

text \<open>
  \<^verbatim>\<open>
  def predict_maxfit(y, X, theta, threshold_range=(0,1), stepsize=0.20,
                     most_eval=True, eval_type="relevance",
                     cov_inv=None, poll_results=False):
      job_id, job_code = csa_postmaster._post_maxfit_inputs(
          y=y, X=X, theta=theta, most_eval=most_eval,
          eval_type=eval_type, cov_inv=cov_inv)
      if poll_results:
          yhat, yhat_details = csa_postmaster._get_results(job_id, job_code)
          return yhat, yhat_details
      else:
          return job_id, job_code
  \<close>
\<close>

definition psrlib_predict_maxfit ::
  "pymodule \<Rightarrow> pyval \<Rightarrow> pyval \<Rightarrow> pyval \<Rightarrow> pyval \<Rightarrow> pyval \<Rightarrow> pyval \<Rightarrow> pyval \<Rightarrow> pyval \<Rightarrow> bool
     \<Rightarrow> world \<Rightarrow> (error + pyval \<times> pyval) \<times> world" where
  "psrlib_predict_maxfit csa_postmaster y X theta threshold_range stepsize most_eval eval_type
       cov_inv poll_results w =
     (case call_attr csa_postmaster ''_post_maxfit_inputs'' []
             [(''y'', y), (''X'', X), (''theta'', theta), (''most_eval'', most_eval),
              (''eval_type'', eval_type), (''cov_inv'', cov_inv)] w of
        (Inl err, w1) \<Rightarrow> (Inl err, w1)
      | (Inr (job_id, job_code), w1) \<Rightarrow>
          if poll_results
          then (case call_attr csa_postmaster ''_get_results'' [job_id, job_code] [] w1 of
                  (Inl err, w2) \<Rightarrow> (Inl err, w2)
                | (Inr (yhat, yhat_details), w2) \<Rightarrow> (Inr (yhat, yhat_details), w2))
          else (Inr (job_id, job_code), w1))"

section \<open>The binary counterpart, as the specification words it\<close>

text \<open>
  The fixed mapping of the specification: PSR to PSR_BINARY, MAXFIT to MAXFIT_BINARY,
  GRID to GRID_BINARY, GRID_SINGULARITY to GRID_SINGULARITY_BINARY, and every other
  family to itself. It is compared below with what the wrapper reads from
  \<open>BINARY_FUNCTION_MAP\<close>.
\<close>

fun spec_binary_counterpart :: "PSRFunction \<Rightarrow> PSRFunction" where
  "spec_binary_counterpart PSR = PSR_BINARY"
| "spec_binary_counterpart MAXFIT = MAXFIT_BINARY"
| "spec_binary_counterpart GRID = GRID_BINARY"
| "spec_binary_counterpart GRID_SINGULARITY = GRID_SINGULARITY_BINARY"
| "spec_binary_counterpart f = f"

section \<open>Sample collaborators\<close>

text \<open>
  A concrete environment and a concrete starting world, for evaluating the definitions:
  the service accepts every submission as job 7 with code \<open>''abc''\<close> and answers every
  poll with a one-entry result.
\<close>

definition world0 :: world where
  "world0 = \<lparr>posted = [], polled = [], printed = [], clock_reads = 0, receipts = []\<rparr>"

definition env0 :: env where
  "env0 = \<lparr>convert_ndarray_to_list = (\<lambda>d. Inr d),
            post_job = (\<lambda>w f y X theta d. Inr (PyNone, Some 7, Some ''abc'')),
            poll_for_results = (\<lambda>w i c. Inr [(''yhat'', PyFloat 1)]),
            py_str = (\<lambda>v. case v of PyStr s \<Rightarrow> s | _ \<Rightarrow> ''?''),
            time_time = (\<lambda>n. real n),
            determine_task_type = (\<lambda>y X theta. Inr (Kind SINGLE)),
            run_executor = (\<lambda>ex f y X theta opts w. (Inr (PyFloat 1, PyDict []), w))\<rparr>"

text \<open>The same service, rejecting every submission with a diagnostic and no handle.\<close>

definition env_rejecting :: env where
  "env_rejecting =
     env0\<lparr>post_job := (\<lambda>w f y X theta d. Inr (PyStr ''quota exceeded'', None, None))\<rparr>"

text \<open>The same service behind a router that falls through without a task kind.\<close>

definition env_unrouted :: env where
  "env_unrouted = env0\<lparr>determine_task_type := (\<lambda>y X theta. Inr NoKind)\<rparr>"

text \<open>A single-task request: \<open>y\<close> is 2-by-1, \<open>X\<close> is 2-by-2, \<open>theta\<close> is 1-by-2.\<close>

definition y0 :: ndarray where
  "y0 = NDArray 2 1 [1, 2]"

definition X0 :: ndarray where
  "X0 = NDArray 2 2 [1, 0, 0, 1]"

definition theta0 :: ndarray where
  "theta0 = NDArray 1 2 [1, 1]"

definition opts0 :: PredictionOptions where
  "opts0 = \<lparr>options = [(''threshold'', PyFloat 0)]\<rparr>"





section \<open>Polling a handle with an absent field\<close>

lemma get_results_present:
  "get_results e (Some i) (Some c) w =
     (map_sum id (\<lambda>d. (dict_get d ''yhat'' PyNone, Some d)) (poll_for_results e w i c),
      w\<lparr>polled := polled w @ [(i, c)]\<rparr>)"
  by (auto simp: get_results_def call_poll_for_results_def split: sum.splits)

text \<open>
  C1, as stated: polling a handle whose job_id or job_code is absent fails with
  InvalidHandleError. It does not: for the handle (None, None), \<open>get_results\<close> returns
  the pair (None, None) and raises nothing.
\<close>

theorem C1_get_results_absent_counterexample:
  "get_results env0 None None world0 = (Inr (PyNone, None), world0)
   \<and> fst (get_results env0 None None world0) \<noteq> Inl InvalidHandleError"
  by (simp add: get_results_def)

text \<open>
  C1, amended: for every handle whose job_id or job_code is absent, \<open>get_results\<close>
  returns the pair (None, None) at once, raises nothing, and performs no network call:
  the world, and with it the log of polls, is unchanged.
\<close>

theorem C1_get_results_absent_returns_none:
  assumes "job_id = None \<or> job_code = None"
  shows "get_results e job_id job_code w = (Inr (PyNone, None), w)
         \<and> polled (snd (get_results e job_id job_code w)) = polled w"
  using assms by (auto simp: get_results_def split: option.splits)

theorem C1_get_results_absent_returns_none_witness:
  "get_results env0 (Some 7) None world0 = (Inr (PyNone, None), world0)
   \<and> polled (snd (get_results env0 (Some 7) None world0)) = polled world0"
  using C1_get_results_absent_returns_none [where job_id = "Some 7" and job_code = None
      and e = env0 and w = world0]
  by simp

section \<open>Selecting the binary variant\<close>

lemma binary_map_get: "dict_get BINARY_FUNCTION_MAP f f = spec_binary_counterpart f"
  by (cases f) (simp_all add: dict_get_def BINARY_FUNCTION_MAP_def)

lemma binary_map_bij:
  "bij_betw (\<lambda>f. dict_get BINARY_FUNCTION_MAP f f)
     {PSR, MAXFIT, GRID, GRID_SINGULARITY}
     {PSR_BINARY, MAXFIT_BINARY, GRID_BINARY, GRID_SINGULARITY_BINARY}"
  unfolding bij_betw_def inj_on_def by (auto simp: binary_map_get)

text \<open>
  C2: whenever the wrapper reaches the submission (the options serialise and repeat none
  of the keywords \<open>y\<close>, \<open>X\<close>, \<open>theta\<close>), the family tag it passes to \<open>post_job\<close> is
  the binary counterpart of the base family when \<open>is_binary\<close> is set, and the base
  family itself when it is not. A family outside the four base families has itself as
  counterpart, and the table is a bijection from the four base families onto the four
  binary tags.
\<close>

theorem C2_binary_family_selection:
  assumes "convert_ndarray_to_list e (options Options) = Inr od"
      and "filter (\<lambda>k. k \<in> set [''y'', ''X'', ''theta'']) (map fst od) = []"
  shows "posted (snd (create_post_job_decorator base name e y X theta Options is_binary w))
           = posted w
               @ [(if is_binary then spec_binary_counterpart base else base, y, X, theta, od)]
         \<and> (f \<notin> {PSR, MAXFIT, GRID, GRID_SINGULARITY}
              \<longrightarrow> dict_get BINARY_FUNCTION_MAP f f = f)
         \<and> bij_betw (\<lambda>f. dict_get BINARY_FUNCTION_MAP f f)
              {PSR, MAXFIT, GRID, GRID_SINGULARITY}
              {PSR_BINARY, MAXFIT_BINARY, GRID_BINARY, GRID_SINGULARITY_BINARY}"
proof -
  have "posted (snd (create_post_job_decorator base name e y X theta Options is_binary w))
           = posted w
               @ [(if is_binary then spec_binary_counterpart base else base, y, X, theta, od)]"
    using assms
    by (auto simp: create_post_job_decorator_def call_post_job_def print_line_def
          binary_map_get Let_def split: sum.splits prod.splits)
  moreover have "f \<notin> {PSR, MAXFIT, GRID, GRID_SINGULARITY}
                   \<longrightarrow> dict_get BINARY_FUNCTION_MAP f f = f"
    by (cases f) (simp_all add: binary_map_get)
  ultimately show ?thesis using binary_map_bij by blast
qed

theorem C2_binary_family_selection_witness:
  "convert_ndarray_to_list env0 (options opts0) = Inr (options opts0)
   \<and> filter (\<lambda>k. k \<in> set [''y'', ''X'', ''theta'']) (map fst (options opts0)) = []
   \<and> PREDICT \<notin> {PSR, MAXFIT, GRID, GRID_SINGULARITY}
   \<and> posted (snd (post_grid_inputs env0 y0 X0 theta0 opts0 True world0))
       = [(GRID_BINARY, y0, X0, theta0, options opts0)]
   \<and> dict_get BINARY_FUNCTION_MAP PREDICT PREDICT = PREDICT"
proof -
  have c: "convert_ndarray_to_list env0 (options opts0) = Inr (options opts0)"
    by (simp add: env0_def)
  have k: "filter (\<lambda>k. k \<in> set [''y'', ''X'', ''theta'']) (map fst (options opts0)) = []"
    by (simp add: opts0_def)
  show ?thesis
    using c k C2_binary_family_selection [OF c k, where base = GRID
        and name = "''_post_grid_inputs''" and y = y0 and X = X0 and theta = theta0
        and is_binary = True and w = world0 and f = PREDICT]
    by (simp add: post_grid_inputs_def world0_def)
qed

section \<open>The single-task executor\<close>

text \<open>
  C3: when the submission produces the pair (job_id, job_code), \<open>execute_prediction\<close>
  with \<open>poll_results\<close> false returns that pair and leaves the world as the submission
  left it (so no poll is made); with \<open>poll_results\<close> true it submits, then calls
  \<open>get_results_worker\<close> on that pair in the world the submission left, and returns the
  pair (yhat, yhat_details) obtained from it.
\<close>

theorem C3_execute_prediction:
  assumes "post_function y X theta Options is_binary w = (Inr (job_id, job_code), w1)"
  shows "execute_prediction e y X theta Options post_function False is_binary w
           = (Inr (JobHandle job_id job_code), w1)
         \<and> execute_prediction e y X theta Options post_function True is_binary w
           = (map_sum id (\<lambda>(yhat, yhat_details). JobOutcome yhat yhat_details)
                (fst (get_results_worker e job_id job_code w1)),
              snd (get_results_worker e job_id job_code w1))"
  using assms
  by (auto simp: execute_prediction_def split: prod.splits sum.splits)

theorem C3_execute_prediction_witness:
  "post_predict_inputs env0 y0 X0 theta0 opts0 False world0
      = (Inr (Some 7, Some ''abc''), world0\<lparr>posted := [(PSR, y0, X0, theta0, options opts0)]\<rparr>)
   \<and> execute_prediction env0 y0 X0 theta0 opts0 (post_predict_inputs env0) False False world0
      = (Inr (JobHandle (Some 7) (Some ''abc'')),
         world0\<lparr>posted := [(PSR, y0, X0, theta0, options opts0)]\<rparr>)
   \<and> execute_prediction env0 y0 X0 theta0 opts0 (post_predict_inputs env0) True False world0
      = (Inr (JobOutcome (PyFloat 1) (Some [(''yhat'', PyFloat 1)])),
         world0\<lparr>posted := [(PSR, y0, X0, theta0, options opts0)], polled := [(7, ''abc'')]\<rparr>)"
proof -
  have h: "post_predict_inputs env0 y0 X0 theta0 opts0 False world0
      = (Inr (Some 7, Some ''abc''), world0\<lparr>posted := [(PSR, y0, X0, theta0, options opts0)]\<rparr>)"
    by (simp add: post_predict_inputs_def create_post_job_decorator_def call_post_job_def
          env0_def opts0_def world0_def)
  show ?thesis
    using h C3_execute_prediction [where post_function = "post_predict_inputs env0"
        and y = y0 and X = X0 and theta = theta0 and Options = opts0 and is_binary = False
        and w = world0 and e = env0, OF h]
    by (simp add: get_results_worker_def get_results_present env0_def world0_def dict_get_def)
qed

section \<open>The task table\<close>

lemma dom_TASK_MAP: "dom (map_of TASK_MAP) = {Kind SINGLE, Kind MULTI_THETA, Kind MULTI_Y}"
  by (auto simp: TASK_MAP_def dom_def split: if_splits)

text \<open>
  C4, as stated: a task-kind value outside the three of the table makes the dispatch
  fail with UnroutableTaskError. It does not: when the router answers \<open>None\<close>, the
  lookup answers \<open>None\<close>, and calling it raises Python's TypeError.
\<close>

theorem C4_unrouted_counterexample:
  "fst (predict_psr env_unrouted y0 X0 theta0 opts0 False world0)
     = Inl (TypeError ''NoneType object is not callable'')
   \<and> fst (predict_psr env_unrouted y0 X0 theta0 opts0 False world0) \<noteq> Inl UnroutableTaskError"
  by (simp add: predict_psr_def call_time_time_def env_unrouted_def env0_def TASK_MAP_def)

text \<open>
  C4, amended: the task table maps exactly the three task kinds to their executors
  (Single to the single-task predict, MultiY to run_multi_y, MultiTheta to
  run_multi_theta), and for any task-kind value outside those three the lookup finds
  nothing and the dispatch fails with Python's TypeError (the missing entry is called),
  after the first clock reading and before any executor runs.
\<close>

theorem C4_task_table_dispatch:
  "map_of TASK_MAP (Kind SINGLE) = Some Single_tasks_predict
   \<and> map_of TASK_MAP (Kind MULTI_Y) = Some Run_multi_y
   \<and> map_of TASK_MAP (Kind MULTI_THETA) = Some Run_multi_theta
   \<and> dom (map_of TASK_MAP) = {Kind SINGLE, Kind MULTI_Y, Kind MULTI_THETA}
   \<and> (determine_task_type e y X theta = Inr k
        \<and> k \<notin> {Kind SINGLE, Kind MULTI_Y, Kind MULTI_THETA}
      \<longrightarrow> predict_psr e y X theta Options is_return_receipt w
            = (Inl (TypeError ''NoneType object is not callable''),
               w\<lparr>clock_reads := Suc (clock_reads w)\<rparr>))"
proof -
  have miss: "map_of TASK_MAP k = None" if "k \<notin> {Kind SINGLE, Kind MULTI_Y, Kind MULTI_THETA}"
    using that by (simp add: TASK_MAP_def)
  have "predict_psr e y X theta Options is_return_receipt w
            = (Inl (TypeError ''NoneType object is not callable''),
               w\<lparr>clock_reads := Suc (clock_reads w)\<rparr>)"
    if "determine_task_type e y X theta = Inr k"
       "k \<notin> {Kind SINGLE, Kind MULTI_Y, Kind MULTI_THETA}"
    using that miss [OF that(2)] by (simp add: predict_psr_def call_time_time_def)
  moreover have "map_of TASK_MAP (Kind SINGLE) = Some Single_tasks_predict"
    "map_of TASK_MAP (Kind MULTI_Y) = Some Run_multi_y"
    "map_of TASK_MAP (Kind MULTI_THETA) = Some Run_multi_theta"
    by (simp_all add: TASK_MAP_def)
  ultimately show ?thesis using dom_TASK_MAP by auto
qed

theorem C4_task_table_dispatch_witness:
  "determine_task_type env_unrouted y0 X0 theta0 = Inr NoKind
   \<and> NoKind \<notin> {Kind SINGLE, Kind MULTI_Y, Kind MULTI_THETA}
   \<and> predict_psr env_unrouted y0 X0 theta0 opts0 True world0
       = (Inl (TypeError ''NoneType object is not callable''), world0\<lparr>clock_reads := 1\<rparr>)"
  using C4_task_table_dispatch [where e = env_unrouted and y = y0 and X = X0
      and theta = theta0 and k = NoKind and Options = opts0 and is_return_receipt = True
      and w = world0]
  by (simp add: env_unrouted_def env0_def world0_def)

section \<open>The diagnostic of a rejected submission\<close>

text \<open>
  C5: when the submission answers with a response that is present and with job_id and
  job_code both absent, the wrapper returns the pair (None, None), raises nothing, and
  prints the diagnostic line built from the function name and the response. The
  diagnostic is printed in that case only: whatever else happens (the options fail to
  serialise, the submission raises, a handle field is present, the response is absent),
  nothing is printed.
\<close>

theorem C5_absent_handle_diagnostic:
  "(convert_ndarray_to_list e (options Options) = Inr od
      \<and> call_post_job e (if is_binary then dict_get BINARY_FUNCTION_MAP base base else base)
            y X theta od w = (Inr (response, None, None), w1)
      \<and> response \<noteq> PyNone
    \<longrightarrow> create_post_job_decorator base name e y X theta Options is_binary w
          = (Inr (None, None),
             w1\<lparr>printed := printed w1
                   @ [''csanalytics:postmaster:_jobs:'' @ name @ '':'' @ py_str e response]\<rparr>))
   \<and> printed (snd (create_post_job_decorator base name e y X theta Options is_binary w))
     = (case convert_ndarray_to_list e (options Options) of
          Inl err \<Rightarrow> printed w
        | Inr options_dict \<Rightarrow>
            (case fst (call_post_job e
                         (if is_binary then dict_get BINARY_FUNCTION_MAP base base else base)
                         y X theta options_dict w) of
               Inr (response, None, None) \<Rightarrow>
                 if response \<noteq> PyNone
                 then printed w @ [''csanalytics:postmaster:_jobs:'' @ name @ '':''
                                     @ py_str e response]
                 else printed w
             | _ \<Rightarrow> printed w))"
  by (auto simp: create_post_job_decorator_def call_post_job_def print_line_def Let_def
           split: if_splits sum.splits prod.splits option.splits)

theorem C5_absent_handle_diagnostic_witness:
  "convert_ndarray_to_list env_rejecting (options opts0) = Inr (options opts0)
   \<and> call_post_job env_rejecting PSR y0 X0 theta0 (options opts0) world0
       = (Inr (PyStr ''quota exceeded'', None, None),
          world0\<lparr>posted := [(PSR, y0, X0, theta0, options opts0)]\<rparr>)
   \<and> create_post_job_decorator PSR ''_post_predict_inputs'' env_rejecting y0 X0 theta0 opts0
         False world0
       = (Inr (None, None),
          world0\<lparr>posted := [(PSR, y0, X0, theta0, options opts0)],
                 printed := [''csanalytics:postmaster:_jobs:_post_predict_inputs:quota exceeded'']\<rparr>)
   \<and> printed (snd (create_post_job_decorator PSR ''_post_predict_inputs'' env0 y0 X0 theta0 opts0
         False world0)) = []"
proof -
  have c: "convert_ndarray_to_list env_rejecting (options opts0) = Inr (options opts0)"
    by (simp add: env_rejecting_def env0_def)
  have p: "call_post_job env_rejecting PSR y0 X0 theta0 (options opts0) world0
       = (Inr (PyStr ''quota exceeded'', None, None),
          world0\<lparr>posted := [(PSR, y0, X0, theta0, options opts0)]\<rparr>)"
    by (simp add: call_post_job_def env_rejecting_def env0_def opts0_def world0_def)
  have q: "printed (snd (create_post_job_decorator PSR ''_post_predict_inputs'' env0 y0 X0 theta0
         opts0 False world0)) = []"
    by (simp add: create_post_job_decorator_def call_post_job_def env0_def opts0_def world0_def)
  show ?thesis
    using c p q C5_absent_handle_diagnostic [where e = env_rejecting and Options = opts0
        and od = "options opts0" and is_binary = False and base = PSR and y = y0 and X = X0
        and theta = theta0 and w = world0 and response = "PyStr ''quota exceeded''"
        and ?w1.0 = "world0\<lparr>posted := [(PSR, y0, X0, theta0, options opts0)]\<rparr>"
        and name = "''_post_predict_inputs''"]
    by (simp add: env_rejecting_def env0_def world0_def)
qed

section \<open>Shape classification\<close>




section \<open>Grid and grid singularity in multi_tasks\<close>

text \<open>
  C7: for every input (y, X, theta, Options, poll_results), and in every state of the
  service, \<open>predict_grid\<close> and \<open>predict_grid_singularity\<close> of \<open>multi_tasks\<close> return the
  same value and have the same effects.
\<close>

theorem C7_grid_equals_grid_singularity:
  "multi_tasks_predict_grid e y X theta Options poll_results w
     = multi_tasks_predict_grid_singularity e y X theta Options poll_results w"
  unfolding multi_tasks_predict_grid_def multi_tasks_predict_grid_singularity_def
  by (rule refl)

section \<open>The receipt option\<close>


section \<open>psrlib\<close>

text \<open>
  C10: two calls of \<open>psrlib.predict_maxfit\<close> that agree on y, X, theta, most_eval,
  eval_type, cov_inv and poll_results, and differ in any way in threshold_range and
  stepsize, return the same value and have the same effects, whatever module
  \<open>csa_postmaster\<close> is: the two arguments never reach the submission.
\<close>

theorem C10_predict_maxfit_ignores_threshold_range_and_stepsize:
  "psrlib_predict_maxfit csa_postmaster y X theta threshold_range stepsize
       most_eval eval_type cov_inv poll_results w
     = psrlib_predict_maxfit csa_postmaster y X theta threshold_range' stepsize'
       most_eval eval_type cov_inv poll_results w"
  by (simp add: psrlib_predict_maxfit_def)

end
